theory Spec2Isabelle
  imports Main "HOL-Library.Multiset"
begin

section \<open>Strings, errors\<close>

text \<open>
  A Python \<open>str\<close> is a sequence of Unicode code points. A character is modelled by its
  code point, a string by the list of its code points, so that \<open>length\<close> and the
  regular-expression character classes count what Python counts.
\<close>

type_synonym codepoint = nat
type_synonym pystr = "codepoint list"

datatype error =
  KeyError codepoint
| ValueError string
| DataError int
| IntegrityError pystr
| OperationalError pystr
| ValidationError string

section \<open>backend.py\<close>

subsection \<open>GEMATRIA_MAP\<close>

text \<open>The dict literal, entry by entry, in the order of the source.\<close>

definition GEMATRIA_MAP_items :: "(codepoint \<times> int) list" where
  "GEMATRIA_MAP_items =
    [(0x5D0, 1), (0x5D1, 2), (0x5D2, 3), (0x5D3, 4), (0x5D4, 5),
     (0x5D5, 6), (0x5D6, 7), (0x5D7, 8), (0x5D8, 9),
     (0x5D9, 10), (0x5DB, 20), (0x5DC, 30), (0x5DE, 40), (0x5E0, 50),
     (0x5E1, 60), (0x5E2, 70), (0x5E4, 80), (0x5E6, 90),
     (0x5E7, 100), (0x5E8, 200), (0x5E9, 300), (0x5EA, 400),
     (0x5DA, 20), (0x5DD, 40), (0x5DF, 50), (0x5E3, 80), (0x5E5, 90)]"

definition GEMATRIA_MAP :: "codepoint \<rightharpoonup> int" where
  "GEMATRIA_MAP = map_of GEMATRIA_MAP_items"

subsection \<open>Normalization\<close>

text \<open>
  \<open>NIQQUD_AND_TAAMIM\<close> is the character class of the code points U+0591 to U+05C7;
  \<open>NON_HEBREW\<close> is the negated class of U+05D0 to U+05EA together with U+05DA, U+05DD,
  U+05DF, U+05E3 and U+05E5. Each predicate says whether the pattern matches one
  character; \<open>pattern.sub('', text)\<close> deletes every match, that is every matching
  character, and keeps the others in their order.
\<close>

definition NIQQUD_AND_TAAMIM :: "codepoint \<Rightarrow> bool" where
  "NIQQUD_AND_TAAMIM c \<longleftrightarrow> 0x591 \<le> c \<and> c \<le> 0x5C7"

definition NON_HEBREW :: "codepoint \<Rightarrow> bool" where
  "NON_HEBREW c \<longleftrightarrow>
     \<not> ((0x5D0 \<le> c \<and> c \<le> 0x5EA) \<or> c = 0x5DA \<or> c = 0x5DD \<or> c = 0x5DF
        \<or> c = 0x5E3 \<or> c = 0x5E5)"

definition re_sub_empty :: "(codepoint \<Rightarrow> bool) \<Rightarrow> pystr \<Rightarrow> pystr" where
  "re_sub_empty pattern text = filter (\<lambda>c. \<not> pattern c) text"

definition backend_normalize :: "pystr \<Rightarrow> pystr" where
  "backend_normalize text =
     (let text = re_sub_empty NIQQUD_AND_TAAMIM text
      in re_sub_empty NON_HEBREW text)"

subsection \<open>Public API\<close>

text \<open>\<open>GEMATRIA_MAP.get(ch, 0)\<close>: a missing key gives the default.\<close>

definition dict_get :: "('k \<rightharpoonup> 'v) \<Rightarrow> 'k \<Rightarrow> 'v \<Rightarrow> 'v" where
  "dict_get d k dflt = (case d k of None \<Rightarrow> dflt | Some v \<Rightarrow> v)"

definition get_gematria :: "pystr \<Rightarrow> int" where
  "get_gematria text =
     (let text = backend_normalize text
      in sum_list (map (\<lambda>ch. dict_get GEMATRIA_MAP ch 0) text))"

text \<open>
  \<open>GEMATRIA_MAP[ch]\<close> raises \<open>KeyError\<close> on a missing key; the list comprehension
  stops at the first one.
\<close>

definition dict_index :: "(codepoint \<rightharpoonup> 'v) \<Rightarrow> codepoint \<Rightarrow> error + 'v" where
  "dict_index d k = (case d k of None \<Rightarrow> Inl (KeyError k) | Some v \<Rightarrow> Inr v)"

fun breakdown_loop :: "pystr \<Rightarrow> error + (codepoint \<times> int) list" where
  "breakdown_loop [] = Inr []"
| "breakdown_loop (ch # text) =
     (case dict_index GEMATRIA_MAP ch of
        Inl e \<Rightarrow> Inl e
      | Inr v \<Rightarrow> (case breakdown_loop text of
                    Inl e \<Rightarrow> Inl e
                  | Inr rest \<Rightarrow> Inr ((ch, v) # rest)))"

definition gematria_breakdown :: "pystr \<Rightarrow> error + (codepoint \<times> int) list" where
  "gematria_breakdown text =
     (let text = backend_normalize text
      in breakdown_loop text)"

section \<open>seed_db.py\<close>

subsection \<open>The table gematria_words\<close>

text \<open>
  A row of the table \<open>gematria_words\<close>, declared by class \<open>GematriaWords\<close> in
  seed_db.py and by class \<open>GematriaWord\<close> in api.py. The column \<open>created_at\<close> is a
  \<open>DateTime\<close> in the first and a \<open>Text\<close> in the second; the code only orders rows by
  it, so its type is a parameter \<open>'ts\<close> with a linear order. The table is the list of
  its rows in insertion order.
\<close>

record 'ts GematriaWords =
  w_id :: nat
  w_text :: pystr
  w_normalized :: pystr
  w_gematria :: int
  w_created_at :: 'ts

type_synonym 'ts gematria_words = "'ts GematriaWords list"

text \<open>
  The object that \<open>main\<close> builds and hands to \<open>session.add\<close>: it sets three columns;
  \<open>id\<close> and \<open>created_at\<close> are filled in when the row is inserted.
\<close>

record pending_GematriaWords =
  p_text :: pystr
  p_normalized :: pystr
  p_gematria :: int

text \<open>
  What the script and the API take from outside the repository:
  \<^item> \<open>nextval k\<close>, the value that the sequence behind \<open>id\<close> gives to the \<open>k\<close>-th insert of
    a run (no code reads \<open>id\<close>);
  \<^item> \<open>utcnow k\<close>, the clock reading that the column default \<open>datetime.utcnow\<close> gives to
    the \<open>k\<close>-th insert of a run;
  \<^item> \<open>index_entry_fits\<close>, whether the server can store a value of \<open>normalized\<close> in the
    unique index of the column (an index entry has a maximal size);
  \<^item> \<open>tie_order\<close>, the order in which the server returns rows whose sort keys are
    equal: SQL leaves it open, and any such order is the order of some \<open>tie_order\<close>.
\<close>

record 'ts env =
  nextval :: "nat \<Rightarrow> nat"
  utcnow :: "nat \<Rightarrow> 'ts"
  index_entry_fits :: "pystr \<Rightarrow> bool"
  tie_order :: "'ts GematriaWords \<Rightarrow> nat"

text \<open>
  One INSERT, the \<open>k\<close>-th of the run, with the ways it fails:
  \<^item> a string that holds U+0000 cannot be sent to the server (the driver raises
    \<open>ValueError\<close>);
  \<^item> \<open>gematria\<close> is declared \<open>Column(Integer)\<close>, four bytes: a value outside the range is
    refused (\<open>DataError\<close>);
  \<^item> \<open>normalized\<close> is declared \<open>unique=True\<close>: a row whose \<open>normalized\<close> is already in
    the table is refused (\<open>IntegrityError\<close>);
  \<^item> a value of \<open>normalized\<close> too long for an entry of the unique index is refused
    (\<open>OperationalError\<close>).
  Otherwise the row is appended, with \<open>id\<close> from the sequence and \<open>created_at\<close> from the
  clock.
\<close>

definition insert_row ::
  "'ts env \<Rightarrow> nat \<Rightarrow> pending_GematriaWords \<Rightarrow> 'ts gematria_words
     \<Rightarrow> error + 'ts gematria_words" where
  "insert_row env k p tbl =
     (if 0 \<in> set (p_text p) \<or> 0 \<in> set (p_normalized p)
      then Inl (ValueError ''A string literal cannot contain NUL (0x00) characters.'')
      else if p_gematria p < - 2147483648 \<or> 2147483647 < p_gematria p
      then Inl (DataError (p_gematria p))
      else if p_normalized p \<in> set (map w_normalized tbl)
      then Inl (IntegrityError (p_normalized p))
      else if \<not> index_entry_fits env (p_normalized p)
      then Inl (OperationalError (p_normalized p))
      else Inr (tbl @ [\<lparr>w_id = nextval env k, w_text = p_text p,
                         w_normalized = p_normalized p, w_gematria = p_gematria p,
                         w_created_at = utcnow env k\<rparr>]))"

text \<open>
  \<open>session.commit()\<close> inserts the pending objects in the order they were added, inside
  one transaction; the first error aborts the transaction and the table keeps its old
  rows.
\<close>

fun flush ::
  "'ts env \<Rightarrow> nat \<Rightarrow> pending_GematriaWords list \<Rightarrow> 'ts gematria_words
     \<Rightarrow> error + 'ts gematria_words" where
  "flush env k [] tbl = Inr tbl"
| "flush env k (p # ps) tbl =
     (case insert_row env k p tbl of
        Inl e \<Rightarrow> Inl e
      | Inr tbl' \<Rightarrow> flush env (Suc k) ps tbl')"

subsection \<open>normalize, gematria_value\<close>

text \<open>The pattern of \<open>normalize\<close>: the negated class of the range U+05D0 to U+05EA.\<close>

definition seed_db_pattern :: "codepoint \<Rightarrow> bool" where
  "seed_db_pattern c \<longleftrightarrow> \<not> (0x5D0 \<le> c \<and> c \<le> 0x5EA)"

definition seed_db_normalize :: "pystr \<Rightarrow> pystr" where
  "seed_db_normalize word = re_sub_empty seed_db_pattern word"

definition gematria_values_items :: "(codepoint \<times> int) list" where
  "gematria_values_items =
    [(0x5D0, 1), (0x5D1, 2), (0x5D2, 3), (0x5D3, 4), (0x5D4, 5), (0x5D5, 6), (0x5D6, 7),
     (0x5D7, 8), (0x5D8, 9),
     (0x5D9, 10), (0x5DB, 20), (0x5DA, 20), (0x5DC, 30), (0x5DE, 40), (0x5DD, 40),
     (0x5E0, 50), (0x5DF, 50),
     (0x5E1, 60), (0x5E2, 70), (0x5E4, 80), (0x5E3, 80), (0x5E6, 90), (0x5E5, 90),
     (0x5E7, 100), (0x5E8, 200), (0x5E9, 300), (0x5EA, 400)]"

definition gematria_values :: "codepoint \<rightharpoonup> int" where
  "gematria_values = map_of gematria_values_items"

text \<open>\<open>sum(gematria_values[char] for char in word)\<close>: a missing key raises.\<close>

fun gematria_value :: "pystr \<Rightarrow> error + int" where
  "gematria_value [] = Inr 0"
| "gematria_value (char # word) =
     (case dict_index gematria_values char of
        Inl e \<Rightarrow> Inl e
      | Inr v \<Rightarrow> (case gematria_value word of
                    Inl e \<Rightarrow> Inl e
                  | Inr s \<Rightarrow> Inr (v + s)))"

subsection \<open>main\<close>

text \<open>
  \<open>str.strip()\<close> removes the leading and trailing characters for which
  \<open>str.isspace\<close> holds.
\<close>

definition py_isspace :: "codepoint \<Rightarrow> bool" where
  "py_isspace c \<longleftrightarrow>
     (0x09 \<le> c \<and> c \<le> 0x0D) \<or> (0x1C \<le> c \<and> c \<le> 0x20) \<or> c = 0x85 \<or> c = 0xA0
     \<or> c = 0x1680 \<or> (0x2000 \<le> c \<and> c \<le> 0x200A) \<or> c = 0x2028 \<or> c = 0x2029
     \<or> c = 0x202F \<or> c = 0x205F \<or> c = 0x3000"

definition py_strip :: "pystr \<Rightarrow> pystr" where
  "py_strip s = rev (dropWhile py_isspace (rev (dropWhile py_isspace s)))"

text \<open>
  The loop over the lines of \<open>words.txt\<close> (each line as the file iterator yields it,
  with its line end). \<open>session\<close> is the list of objects added so far. An exception
  leaves the \<open>with\<close> block and rolls the transaction back.
\<close>

fun main_loop ::
  "pystr list \<Rightarrow> pending_GematriaWords list \<Rightarrow> error + pending_GematriaWords list" where
  "main_loop [] session = Inr session"
| "main_loop (line # file) session =
     (let stripped_word = seed_db_normalize line
      in case gematria_value stripped_word of
           Inl e \<Rightarrow> Inl e
         | Inr v \<Rightarrow>
             main_loop file
               (session @ [\<lparr>p_text = py_strip line, p_normalized = stripped_word,
                              p_gematria = v\<rparr>]))"

definition main ::
  "'ts env \<Rightarrow> pystr list \<Rightarrow> 'ts gematria_words \<Rightarrow> error + 'ts gematria_words" where
  "main env file tbl =
     (case main_loop file [] of
        Inl e \<Rightarrow> Inl e
      | Inr session \<Rightarrow> flush env 0 session tbl)"

section \<open>api.py\<close>

subsection \<open>Request and response models\<close>

record WordRequest =
  word :: pystr

definition validate_hebrew :: "pystr \<Rightarrow> error + pystr" where
  "validate_hebrew v =
     (let normalized = backend_normalize v
      in if normalized = []
         then Inl (ValidationError ''Word must contain at least one Hebrew character'')
         else Inr v)"

text \<open>
  Building a \<open>WordRequest\<close>: the field constraint \<open>min_length=1\<close>, then the field
  validator.
\<close>

definition new_WordRequest :: "pystr \<Rightarrow> error + WordRequest" where
  "new_WordRequest w =
     (if length w < 1 then Inl (ValidationError ''string_too_short'')
      else case validate_hebrew w of
             Inl e \<Rightarrow> Inl e
           | Inr v \<Rightarrow> Inr \<lparr>word = v\<rparr>)"

record GematriaResponse =
  r_word :: pystr
  r_normalized :: pystr
  r_gematria :: int

record TopWordsRequest =
  q_gematria :: int
  q_limit :: int

text \<open>
  Building a \<open>TopWordsRequest\<close>: \<open>gematria\<close> with \<open>ge=0\<close>; \<open>limit\<close> with default 10,
  \<open>ge=1\<close> and \<open>le=100\<close>.
\<close>

definition new_TopWordsRequest :: "int \<Rightarrow> int option \<Rightarrow> error + TopWordsRequest" where
  "new_TopWordsRequest g l =
     (let l = (case l of None \<Rightarrow> 10 | Some n \<Rightarrow> n)
      in if g < 0 then Inl (ValidationError ''greater_than_equal'')
         else if l < 1 then Inl (ValidationError ''greater_than_equal'')
         else if 100 < l then Inl (ValidationError ''less_than_equal'')
         else Inr \<lparr>q_gematria = g, q_limit = l\<rparr>)"

record TopWordsResponse =
  t_gematria :: int
  t_count :: int
  t_words :: "GematriaResponse list"

subsection \<open>Endpoints\<close>

text \<open>
  The status code FastAPI answers with: 422 when the request body fails validation,
  200 when the handler returns, 500 for any other exception.
\<close>

fun status_code :: "error + 'a \<Rightarrow> nat" where
  "status_code (Inr _) = 200"
| "status_code (Inl (ValidationError _)) = 422"
| "status_code (Inl _) = 500"

definition calculate_gematria :: "WordRequest \<Rightarrow> GematriaResponse" where
  "calculate_gematria request =
     (let normalized = backend_normalize (word request);
          gematria_value = get_gematria (word request)
      in \<lparr>r_word = word request, r_normalized = normalized, r_gematria = gematria_value\<rparr>)"

text \<open>
  POST /gematria/calculate with the JSON field \<open>word\<close>. The body is validated into a
  \<open>WordRequest\<close> before the handler runs. The handler takes no database session, so the
  table is handed back as it came.
\<close>

definition post_gematria_calculate ::
  "pystr \<Rightarrow> 'ts gematria_words \<Rightarrow> (error + GematriaResponse) \<times> 'ts gematria_words" where
  "post_gematria_calculate w db =
     (case new_WordRequest w of
        Inl e \<Rightarrow> (Inl e, db)
      | Inr request \<Rightarrow> (Inr (calculate_gematria request), db))"

text \<open>
  \<open>order_by(created_at.desc())\<close>: the rows by descending \<open>created_at\<close>. The query has
  no second sort key, so rows with equal \<open>created_at\<close> come in the order the server
  chooses, \<open>tie_order\<close>. Both sorts are stable: the first orders the rows by
  \<open>tie_order\<close>, the second by descending \<open>created_at\<close> and keeps the first order among
  equal keys.
\<close>

definition order_by_created_at_desc ::
  "('ts::linorder) env \<Rightarrow> 'ts gematria_words \<Rightarrow> 'ts gematria_words" where
  "order_by_created_at_desc env rows =
     rev (sort_key w_created_at (rev (sort_key (tie_order env) rows)))"

text \<open>
  The handler issues two SELECT statements and no write: it returns the response and
  the table unchanged.
\<close>

definition get_top_words ::
  "('ts::linorder) env \<Rightarrow> TopWordsRequest \<Rightarrow> 'ts gematria_words
     \<Rightarrow> TopWordsResponse \<times> 'ts gematria_words" where
  "get_top_words env request db =
     (let words = take (nat (q_limit request))
                    (order_by_created_at_desc env
                       (filter (\<lambda>w. w_gematria w = q_gematria request) db));
          total_count = length (filter (\<lambda>w. w_gematria w = q_gematria request) db)
      in (\<lparr>t_gematria = q_gematria request,
           t_count = int total_count,
           t_words = map (\<lambda>w. \<lparr>r_word = w_text w, r_normalized = w_normalized w,
                                  r_gematria = w_gematria w\<rparr>) words\<rparr>,
          db))"

text \<open>POST /gematria/top with the JSON fields \<open>gematria\<close> and, optionally, \<open>limit\<close>.\<close>

definition post_gematria_top ::
  "('ts::linorder) env \<Rightarrow> int \<Rightarrow> int option \<Rightarrow> 'ts gematria_words
     \<Rightarrow> (error + TopWordsResponse) \<times> 'ts gematria_words" where
  "post_gematria_top env g l db =
     (case new_TopWordsRequest g l of
        Inl e \<Rightarrow> (Inl e, db)
      | Inr request \<Rightarrow> (case get_top_words env request db of (r, db') \<Rightarrow> (Inr r, db')))"

section \<open>The Word Record invariant and the reachable tables\<close>

text \<open>
  The invariant of the table: \<open>normalized\<close> is unique, and every stored \<open>gematria\<close> is
  what \<open>get_gematria\<close> computes from the stored \<open>normalized\<close>.
\<close>

definition word_record_invariant :: "'ts gematria_words \<Rightarrow> bool" where
  "word_record_invariant tbl \<longleftrightarrow>
     distinct (map w_normalized tbl)
     \<and> list_all (\<lambda>w. w_gematria w = get_gematria (w_normalized w)) tbl"

text \<open>
  The tables that the operations of the repository can produce from the empty table,
  which \<open>create_all\<close> creates: a run of the seeding script (committed or rolled back),
  a lookup request, a calculation request.
\<close>

inductive reachable :: "('ts::linorder) gematria_words \<Rightarrow> bool" where
  created: "reachable []"
| seeded: "reachable tbl \<Longrightarrow> main env file tbl = Inr tbl' \<Longrightarrow> reachable tbl'"
| rolled_back: "reachable tbl \<Longrightarrow> main env file tbl = Inl e \<Longrightarrow> reachable tbl"
| looked_up:
    "reachable tbl \<Longrightarrow> post_gematria_top env g l tbl = (r, tbl') \<Longrightarrow> reachable tbl'"
| calculated:
    "reachable tbl \<Longrightarrow> post_gematria_calculate w tbl = (r', tbl') \<Longrightarrow> reachable tbl'"

text \<open>
  An environment for the examples, for a run that starts when \<open>n\<close> rows have been
  inserted before: the sequence goes on from \<open>n\<close>, the clock reads \<open>n\<close> during the whole
  run (it is too coarse to tell the inserts of one run apart), the index takes up to a
  thousand letters, and the server returns rows with equal \<open>created_at\<close> in the order of
  their \<open>id\<close>.
\<close>

definition example_env :: "nat \<Rightarrow> nat env" where
  "example_env n =
     \<lparr>nextval = (\<lambda>k. Suc (n + k)), utcnow = (\<lambda>k. n),
      index_entry_fits = (\<lambda>s. length s \<le> 1000), tie_order = w_id\<rparr>"

section \<open>The letters and the two tables\<close>

lemma GEMATRIA_MAP_all: "list_all (\<lambda>c. GEMATRIA_MAP c \<noteq> None) [0x5D0 ..< 0x5EB]"
  by (simp add: GEMATRIA_MAP_def GEMATRIA_MAP_items_def)

lemma gematria_values_all:
  "list_all (\<lambda>c. gematria_values c = GEMATRIA_MAP c) [0x5D0 ..< 0x5EB]"
  by (simp add: gematria_values_def gematria_values_items_def GEMATRIA_MAP_def
      GEMATRIA_MAP_items_def)

lemma letter_in_upt: "0x5D0 \<le> c \<Longrightarrow> c \<le> 0x5EA \<Longrightarrow> c \<in> set [0x5D0 ..< 0x5EB]"
  by (simp only: set_upt atLeastLessThan_iff) arith

lemma GEMATRIA_MAP_letter:
  assumes "0x5D0 \<le> c" "c \<le> 0x5EA"
  shows "GEMATRIA_MAP c \<noteq> None"
  using GEMATRIA_MAP_all letter_in_upt[OF assms] unfolding list_all_iff by blast

lemma gematria_values_letter:
  assumes "0x5D0 \<le> c" "c \<le> 0x5EA"
  shows "gematria_values c = GEMATRIA_MAP c"
  using gematria_values_all letter_in_upt[OF assms] unfolding list_all_iff by blast

section \<open>Normalization\<close>

lemma backend_normalize_filter:
  "backend_normalize s = filter (\<lambda>c. 0x5D0 \<le> c \<and> c \<le> 0x5EA) s"
  by (auto simp: backend_normalize_def re_sub_empty_def NIQQUD_AND_TAAMIM_def NON_HEBREW_def
      intro: filter_cong)

lemma seed_db_normalize_filter:
  "seed_db_normalize s = filter (\<lambda>c. 0x5D0 \<le> c \<and> c \<le> 0x5EA) s"
  by (simp add: seed_db_normalize_def re_sub_empty_def seed_db_pattern_def)

lemma seed_db_normalize_backend: "seed_db_normalize s = backend_normalize s"
  by (simp add: backend_normalize_filter seed_db_normalize_filter)

lemma backend_normalize_idem: "backend_normalize (backend_normalize s) = backend_normalize s"
  by (simp add: backend_normalize_filter)

lemma backend_normalize_keys: "\<forall>c\<in>set (backend_normalize s). GEMATRIA_MAP c \<noteq> None"
  by (simp add: backend_normalize_filter GEMATRIA_MAP_letter)

section \<open>The core operations\<close>

lemma breakdown_loop_keys:
  "\<forall>c\<in>set s. GEMATRIA_MAP c \<noteq> None \<Longrightarrow>
     breakdown_loop s = Inr (map (\<lambda>c. (c, dict_get GEMATRIA_MAP c 0)) s)"
  by (induction s) (auto simp: dict_index_def dict_get_def split: option.splits)

lemma gematria_breakdown_eq:
  "gematria_breakdown s =
     Inr (map (\<lambda>c. (c, dict_get GEMATRIA_MAP c 0)) (backend_normalize s))"
  by (simp add: gematria_breakdown_def breakdown_loop_keys backend_normalize_keys)

text \<open>
  C3. For every string the core operations raise nothing. \<open>_normalize\<close> and
  \<open>get_gematria\<close> have no raising step; the one step that can raise is the lookup
  \<open>GEMATRIA_MAP[ch]\<close> of \<open>gematria_breakdown\<close>, and it never does: every character
  that survives normalization is a key of \<open>GEMATRIA_MAP\<close>, so the breakdown returns a
  list, one pair for each surviving character.
\<close>

theorem core_operations_total:
  "set (backend_normalize s) \<subseteq> dom GEMATRIA_MAP
   \<and> (\<exists>r. gematria_breakdown s = Inr r \<and> map fst r = backend_normalize s)"
proof
  show "set (backend_normalize s) \<subseteq> dom GEMATRIA_MAP"
    using backend_normalize_keys[of s] by (auto simp: dom_def)
  show "\<exists>r. gematria_breakdown s = Inr r \<and> map fst r = backend_normalize s"
    by (simp add: gematria_breakdown_eq comp_def)
qed

theorem core_operations_total_witness:
  "set (backend_normalize [0x5E9, 0x41, 0x5B0]) \<subseteq> dom GEMATRIA_MAP
   \<and> gematria_breakdown [0x5E9, 0x41, 0x5B0] = Inr [(0x5E9, 300)]
   \<and> gematria_breakdown [] = Inr []"
  using core_operations_total[of "[0x5E9, 0x41, 0x5B0]"]
  by (simp add: gematria_breakdown_eq backend_normalize_filter dict_get_def GEMATRIA_MAP_def
      GEMATRIA_MAP_items_def)

text \<open>
  C4. For every string, the gematria value is the sum of the values in its breakdown.
\<close>

theorem get_gematria_sum_breakdown:
  "\<exists>r. gematria_breakdown s = Inr r \<and> get_gematria s = sum_list (map snd r)"
  by (simp add: gematria_breakdown_eq get_gematria_def comp_def)

theorem get_gematria_sum_breakdown_witness:
  "gematria_breakdown [0x5E9, 0x5DC, 0x5D5, 0x5DD] = Inr [(0x5E9, 300), (0x5DC, 30), (0x5D5, 6), (0x5DD, 40)]
   \<and> get_gematria [0x5E9, 0x5DC, 0x5D5, 0x5DD] = 376"
  using get_gematria_sum_breakdown[of "[0x5E9, 0x5DC, 0x5D5, 0x5DD]"]
  by (simp add: gematria_breakdown_eq backend_normalize_filter dict_get_def GEMATRIA_MAP_def
      GEMATRIA_MAP_items_def)

text \<open>
  C5. For every string, scoring the normalized string gives the score of the string.
\<close>

theorem get_gematria_normalize: "get_gematria (backend_normalize s) = get_gematria s"
  by (simp add: get_gematria_def backend_normalize_idem)

theorem get_gematria_normalize_witness:
  "get_gematria (backend_normalize [0x5D5, 0x5B7, 0x5D9, 0x20]) = 16
   \<and> get_gematria [0x5D5, 0x5B7, 0x5D9, 0x20] = 16"
  using get_gematria_normalize[of "[0x5D5, 0x5B7, 0x5D9, 0x20]"]
  by (simp add: get_gematria_def backend_normalize_filter dict_get_def GEMATRIA_MAP_def
      GEMATRIA_MAP_items_def)

text \<open>
  C8. The word bereshit with its niqqud (bet, sheva, dagesh, resh, tsere, alef, shin,
  hiriq, shin dot, yod, tav) normalizes to its six letters; the six letters score 913,
  with bet 2, resh 200, alef 1, shin 300, yod 10 and tav 400 in \<open>GEMATRIA_MAP\<close>.
\<close>

theorem bereshit_example:
  "backend_normalize
     [0x5D1, 0x5B0, 0x5BC, 0x5E8, 0x5B5, 0x5D0, 0x5E9, 0x5B4, 0x5C1, 0x5D9, 0x5EA]
     = [0x5D1, 0x5E8, 0x5D0, 0x5E9, 0x5D9, 0x5EA]
   \<and> get_gematria [0x5D1, 0x5E8, 0x5D0, 0x5E9, 0x5D9, 0x5EA] = 913
   \<and> GEMATRIA_MAP 0x5D1 = Some 2 \<and> GEMATRIA_MAP 0x5E8 = Some 200
   \<and> GEMATRIA_MAP 0x5D0 = Some 1 \<and> GEMATRIA_MAP 0x5E9 = Some 300
   \<and> GEMATRIA_MAP 0x5D9 = Some 10 \<and> GEMATRIA_MAP 0x5EA = Some 400"
  by (simp add: backend_normalize_def re_sub_empty_def NIQQUD_AND_TAAMIM_def NON_HEBREW_def
      get_gematria_def dict_get_def GEMATRIA_MAP_def GEMATRIA_MAP_items_def)

text \<open>
  C9. For every string, the two steps of the normalization commute: deleting the marks
  U+0591 to U+05C7 and then the characters that are no Hebrew letter gives the same
  string as deleting in the other order, and that string is the normalized one.
\<close>

theorem normalize_steps_commute:
  "re_sub_empty NON_HEBREW (re_sub_empty NIQQUD_AND_TAAMIM s)
     = re_sub_empty NIQQUD_AND_TAAMIM (re_sub_empty NON_HEBREW s)
   \<and> backend_normalize s = re_sub_empty NIQQUD_AND_TAAMIM (re_sub_empty NON_HEBREW s)"
  by (auto simp: backend_normalize_def re_sub_empty_def intro: filter_cong)

theorem normalize_steps_commute_witness:
  "re_sub_empty NON_HEBREW (re_sub_empty NIQQUD_AND_TAAMIM [0x5D1, 0x5BC, 0x61, 0x5DA])
     = [0x5D1, 0x5DA]
   \<and> re_sub_empty NIQQUD_AND_TAAMIM (re_sub_empty NON_HEBREW [0x5D1, 0x5BC, 0x61, 0x5DA])
     = [0x5D1, 0x5DA]"
  using normalize_steps_commute[of "[0x5D1, 0x5BC, 0x61, 0x5DA]"]
  by (simp add: re_sub_empty_def NIQQUD_AND_TAAMIM_def NON_HEBREW_def)

text \<open>
  C10. The seeding script's \<open>normalize\<close> and the backend's \<open>_normalize\<close> are equal on
  every string.
\<close>

theorem seed_db_normalize_eq_backend: "seed_db_normalize s = backend_normalize s"
  by (simp add: backend_normalize_filter seed_db_normalize_filter)

theorem seed_db_normalize_eq_backend_witness:
  "seed_db_normalize [0x5DA, 0x5B0, 0x5CF, 0x5EB, 0x5E5, 0x0A] = [0x5DA, 0x5E5]
   \<and> backend_normalize [0x5DA, 0x5B0, 0x5CF, 0x5EB, 0x5E5, 0x0A] = [0x5DA, 0x5E5]"
  using seed_db_normalize_eq_backend[of "[0x5DA, 0x5B0, 0x5CF, 0x5EB, 0x5E5, 0x0A]"]
  by (simp add: seed_db_normalize_filter)

section \<open>The seeding script\<close>

lemma gematria_value_keys:
  "\<forall>c\<in>set s. gematria_values c \<noteq> None \<Longrightarrow>
     gematria_value s = Inr (sum_list (map (\<lambda>c. dict_get gematria_values c 0) s))"
  by (induction s) (auto simp: dict_index_def dict_get_def split: option.splits)

lemma gematria_value_normalized:
  "gematria_value (seed_db_normalize line) = Inr (get_gematria line)"
proof -
  let ?n = "backend_normalize line"
  have keys: "\<forall>c\<in>set ?n. gematria_values c = GEMATRIA_MAP c"
    by (simp add: backend_normalize_filter gematria_values_letter)
  then have "\<forall>c\<in>set ?n. gematria_values c \<noteq> None"
    using backend_normalize_keys[of line] by simp
  then have "gematria_value ?n = Inr (sum_list (map (\<lambda>c. dict_get gematria_values c 0) ?n))"
    by (rule gematria_value_keys)
  also have "map (\<lambda>c. dict_get gematria_values c 0) ?n = map (\<lambda>c. dict_get GEMATRIA_MAP c 0) ?n"
    using keys by (simp add: dict_get_def)
  finally show ?thesis
    by (simp add: seed_db_normalize_backend get_gematria_def)
qed

lemma get_gematria_stored: "get_gematria (seed_db_normalize line) = get_gematria line"
  by (simp add: seed_db_normalize_backend get_gematria_def backend_normalize_idem)

lemma main_loop_eq:
  "main_loop lines session =
     Inr (session @ map (\<lambda>line. \<lparr>p_text = py_strip line, p_normalized = seed_db_normalize line,
                                   p_gematria = get_gematria line\<rparr>) lines)"
  by (induction lines arbitrary: session) (simp_all add: gematria_value_normalized)

lemma insert_row_Inr:
  "insert_row env k p tbl = Inr tbl' \<Longrightarrow>
     p_normalized p \<notin> set (map w_normalized tbl)
     \<and> tbl' = tbl @ [\<lparr>w_id = nextval env k, w_text = p_text p, w_normalized = p_normalized p,
                        w_gematria = p_gematria p, w_created_at = utcnow env k\<rparr>]"
  by (simp add: insert_row_def split: if_splits)

lemma flush_Inr:
  "flush env k ps tbl = Inr tbl' \<Longrightarrow>
     \<exists>new. tbl' = tbl @ new \<and> map w_normalized new = map p_normalized ps
       \<and> map w_gematria new = map p_gematria ps \<and> map w_text new = map p_text ps"
proof (induction ps arbitrary: k tbl)
  case Nil
  then show ?case by simp
next
  case (Cons p ps)
  let ?row = "\<lparr>w_id = nextval env k, w_text = p_text p, w_normalized = p_normalized p,
                w_gematria = p_gematria p, w_created_at = utcnow env k\<rparr>"
  from Cons.prems obtain mid where ins: "insert_row env k p tbl = Inr mid"
    and step: "flush env (Suc k) ps mid = Inr tbl'"
    by (auto split: sum.splits)
  from insert_row_Inr[OF ins] have mid: "mid = tbl @ [?row]" by simp
  from Cons.IH[OF step] obtain new where
    "tbl' = mid @ new" "map w_normalized new = map p_normalized ps"
    "map w_gematria new = map p_gematria ps" "map w_text new = map p_text ps"
    by blast
  then show ?case
    by (intro exI[of _ "?row # new"]) (simp add: mid)
qed

lemma flush_invariant:
  "flush env k ps tbl = Inr tbl' \<Longrightarrow> word_record_invariant tbl \<Longrightarrow>
     list_all (\<lambda>p. p_gematria p = get_gematria (p_normalized p)) ps \<Longrightarrow>
     word_record_invariant tbl'"
proof (induction ps arbitrary: k tbl)
  case Nil
  then show ?case by simp
next
  case (Cons p ps)
  let ?row = "\<lparr>w_id = nextval env k, w_text = p_text p, w_normalized = p_normalized p,
                w_gematria = p_gematria p, w_created_at = utcnow env k\<rparr>"
  from Cons.prems(1) obtain mid where ins: "insert_row env k p tbl = Inr mid"
    and step: "flush env (Suc k) ps mid = Inr tbl'"
    by (auto split: sum.splits)
  from insert_row_Inr[OF ins] have fresh: "p_normalized p \<notin> set (map w_normalized tbl)"
    and mid: "mid = tbl @ [?row]" by simp_all
  have "word_record_invariant mid"
    using Cons.prems(2,3) fresh by (simp add: mid word_record_invariant_def)
  with Cons.IH[OF step] Cons.prems(3) show ?case by simp
qed

lemma main_invariant:
  assumes "main env lines tbl = Inr tbl'" "word_record_invariant tbl"
  shows "word_record_invariant tbl'"
proof -
  let ?ps = "map (\<lambda>line. \<lparr>p_text = py_strip line, p_normalized = seed_db_normalize line,
                                   p_gematria = get_gematria line\<rparr>) lines"
  from assms(1) have "flush env 0 ?ps tbl = Inr tbl'"
    by (simp add: main_def main_loop_eq)
  moreover have "list_all (\<lambda>p. p_gematria p = get_gematria (p_normalized p)) ?ps"
    by (simp add: list_all_iff get_gematria_stored)
  ultimately show ?thesis using assms(2) flush_invariant by blast
qed

lemma post_gematria_top_table: "post_gematria_top env g l tbl = (r, tbl') \<Longrightarrow> tbl' = tbl"
  by (auto simp: post_gematria_top_def get_top_words_def Let_def split: sum.splits)

lemma post_gematria_calculate_table: "post_gematria_calculate w tbl = (r, tbl') \<Longrightarrow> tbl' = tbl"
  by (auto simp: post_gematria_calculate_def split: sum.splits)

lemmas seed_eval = main_def seed_db_normalize_def re_sub_empty_def seed_db_pattern_def
  dict_index_def gematria_values_def gematria_values_items_def py_strip_def py_isspace_def
  insert_row_def example_env_def Let_def

text \<open>
  C1, as the code has it. The seeding script skips no line: when a run commits, the
  table is the old table followed by one row for each line of the file, in the order
  of the file, also for a blank line and for a line without a Hebrew letter. The row
  of a line has the normalized line as its \<open>normalized\<close> (empty for such a line), the
  letter sum of the line as its \<open>gematria\<close> and the stripped line as its \<open>text\<close>.
\<close>

theorem main_every_line:
  "main env lines tbl = Inr tbl' \<longrightarrow>
     (\<exists>new. tbl' = tbl @ new \<and> map w_normalized new = map seed_db_normalize lines
        \<and> map w_gematria new = map get_gematria lines \<and> map w_text new = map py_strip lines)"
proof
  let ?ps = "map (\<lambda>line. \<lparr>p_text = py_strip line, p_normalized = seed_db_normalize line,
                                   p_gematria = get_gematria line\<rparr>) lines"
  assume "main env lines tbl = Inr tbl'"
  then have "flush env 0 ?ps tbl = Inr tbl'"
    by (simp add: main_def main_loop_eq)
  from flush_Inr[OF this]
  show "\<exists>new. tbl' = tbl @ new \<and> map w_normalized new = map seed_db_normalize lines
        \<and> map w_gematria new = map get_gematria lines \<and> map w_text new = map py_strip lines"
    by (simp add: comp_def)
qed

theorem main_every_line_witness:
  "main (example_env 0) [[0x5D1, 0x0A], [0x20, 0x0A]] [] =
       Inr [\<lparr>w_id = 1, w_text = [0x5D1], w_normalized = [0x5D1], w_gematria = 2,
              w_created_at = 0\<rparr>,
            \<lparr>w_id = 2, w_text = [], w_normalized = [], w_gematria = 0, w_created_at = 0\<rparr>]
   \<and> map seed_db_normalize [[0x5D1, 0x0A], [0x20, 0x0A]] = [[0x5D1], []]
   \<and> map get_gematria [[0x5D1, 0x0A], [0x20, 0x0A]] = [2, 0]
   \<and> map py_strip [[0x5D1, 0x0A], [0x20, 0x0A]] = [[0x5D1], []]"
  using main_every_line[of "example_env 0" "[[0x5D1, 0x0A], [0x20, 0x0A]]" "[]"
      "[\<lparr>w_id = 1, w_text = [0x5D1], w_normalized = [0x5D1], w_gematria = 2,
              w_created_at = 0\<rparr>,
            \<lparr>w_id = 2, w_text = [], w_normalized = [], w_gematria = 0, w_created_at = 0\<rparr>]"]
  by (simp add: seed_eval get_gematria_def backend_normalize_filter dict_get_def GEMATRIA_MAP_def
      GEMATRIA_MAP_items_def)

text \<open>
  The claim C1 as the specification states it fails: a word list with a word and a
  blank line, seeded into the empty table, leaves a row whose \<open>normalized\<close> is empty.
\<close>

theorem main_blank_line_counterexample:
  "main (example_env 0) [[0x5D0, 0x0A], [0x0A]] [] =
     Inr [\<lparr>w_id = 1, w_text = [0x5D0], w_normalized = [0x5D0], w_gematria = 1,
            w_created_at = 0\<rparr>,
          \<lparr>w_id = 2, w_text = [], w_normalized = [], w_gematria = 0, w_created_at = 0\<rparr>]"
  by (simp add: seed_eval)

section \<open>The invariant\<close>

text \<open>
  C2. Every reachable table satisfies the Word Record invariant, and the operations
  preserve it: a committed run of the seeding script on a table that satisfies it
  gives a table that satisfies it, and a lookup request returns the table it was
  given.
\<close>

theorem reachable_invariant:
  "(reachable tbl \<longrightarrow> word_record_invariant tbl)
   \<and> (word_record_invariant tbl \<and> main env lines tbl = Inr tbl' \<longrightarrow> word_record_invariant tbl')
   \<and> (word_record_invariant tbl \<and> post_gematria_top env g l tbl = (r, tbl'') \<longrightarrow> word_record_invariant tbl'')"
proof (intro conjI impI)
  assume "reachable tbl"
  then show "word_record_invariant tbl"
  proof (induction rule: reachable.induct)
    case created
    show ?case by (simp add: word_record_invariant_def)
  next
    case (seeded tbl env f tbl')
    then show ?case using main_invariant by blast
  next
    case (rolled_back tbl env f e)
    then show ?case by simp
  next
    case (looked_up tbl env g l r tbl')
    then show ?case using post_gematria_top_table by blast
  next
    case (calculated tbl w r' tbl')
    then show ?case using post_gematria_calculate_table by blast
  qed
next
  assume "word_record_invariant tbl \<and> main env lines tbl = Inr tbl'"
  then show "word_record_invariant tbl'" using main_invariant by blast
next
  assume "word_record_invariant tbl \<and> post_gematria_top env g l tbl = (r, tbl'')"
  then show "word_record_invariant tbl''" using post_gematria_top_table by blast
qed

theorem reachable_invariant_witness:
  "reachable [\<lparr>w_id = 1, w_text = [0x5D0], w_normalized = [0x5D0], w_gematria = 1,
               w_created_at = 0::nat\<rparr>]
   \<and> word_record_invariant [\<lparr>w_id = 1, w_text = [0x5D0], w_normalized = [0x5D0],
               w_gematria = 1, w_created_at = 0::nat\<rparr>]
   \<and> main (example_env 1) [[0x5D1, 0x0A]]
         [\<lparr>w_id = 1, w_text = [0x5D0], w_normalized = [0x5D0], w_gematria = 1,
            w_created_at = 0\<rparr>]
       = Inr [\<lparr>w_id = 1, w_text = [0x5D0], w_normalized = [0x5D0], w_gematria = 1,
                w_created_at = 0\<rparr>,
              \<lparr>w_id = 2, w_text = [0x5D1], w_normalized = [0x5D1], w_gematria = 2,
                w_created_at = 1\<rparr>]
   \<and> word_record_invariant
         [\<lparr>w_id = 1, w_text = [0x5D0], w_normalized = [0x5D0], w_gematria = 1,
            w_created_at = 0::nat\<rparr>,
          \<lparr>w_id = 2, w_text = [0x5D1], w_normalized = [0x5D1], w_gematria = 2,
            w_created_at = 1\<rparr>]
   \<and> post_gematria_top (example_env 1) 1 None
         [\<lparr>w_id = 1, w_text = [0x5D0], w_normalized = [0x5D0], w_gematria = 1,
            w_created_at = 0::nat\<rparr>]
       = (Inr \<lparr>t_gematria = 1, t_count = 1,
               t_words = [\<lparr>r_word = [0x5D0], r_normalized = [0x5D0], r_gematria = 1\<rparr>]\<rparr>,
          [\<lparr>w_id = 1, w_text = [0x5D0], w_normalized = [0x5D0], w_gematria = 1,
             w_created_at = 0\<rparr>])"
proof -
  let ?r1 = "\<lparr>w_id = 1, w_text = [0x5D0], w_normalized = [0x5D0], w_gematria = 1,
               w_created_at = 0::nat\<rparr>"
  let ?r2 = "\<lparr>w_id = 2, w_text = [0x5D1], w_normalized = [0x5D1], w_gematria = 2,
               w_created_at = 1::nat\<rparr>"
  let ?resp = "\<lparr>t_gematria = 1, t_count = 1,
               t_words = [\<lparr>r_word = [0x5D0], r_normalized = [0x5D0], r_gematria = 1\<rparr>]\<rparr>"
  have seed1: "main (example_env 0) [[0x5D0, 0x0A]] [] = Inr [?r1]"
    by (simp add: seed_eval)
  have reach: "reachable [?r1]"
    using reachable.seeded[OF reachable.created seed1] .
  have seed2: "main (example_env 1) [[0x5D1, 0x0A]] [?r1] = Inr [?r1, ?r2]"
    by (simp add: seed_eval)
  have top: "post_gematria_top (example_env 1) 1 None [?r1] = (Inr ?resp, [?r1])"
    by (simp add: post_gematria_top_def new_TopWordsRequest_def get_top_words_def
        order_by_created_at_desc_def)
  from reachable_invariant[of "[?r1]" "example_env 1" "[[0x5D1, 0x0A]]" "[?r1, ?r2]" 1 None
      "Inr ?resp" "[?r1]"]
  show ?thesis using reach seed2 top by simp
qed

section \<open>The lookup endpoint\<close>









section \<open>The calculation endpoint\<close>

text \<open>
  C7. A word whose normalized form is empty is rejected when the request is
  validated, before the handler runs, with status 422; a word whose normalized form
  is not empty is answered with the word, its normalized form and its gematria value
  and status 200. In both cases the table is handed back unchanged.
\<close>

theorem calculate_rejects_or_answers:
  "(backend_normalize w = [] \<longrightarrow>
      (\<exists>e. new_WordRequest w = Inl e
         \<and> post_gematria_calculate w db = (Inl e, db)
         \<and> status_code (fst (post_gematria_calculate w db)) = 422))
   \<and> (backend_normalize w \<noteq> [] \<longrightarrow>
        post_gematria_calculate w db =
          (Inr \<lparr>r_word = w, r_normalized = backend_normalize w, r_gematria = get_gematria w\<rparr>, db)
        \<and> status_code (fst (post_gematria_calculate w db)) = 200)"
  by (auto simp: post_gematria_calculate_def new_WordRequest_def validate_hebrew_def
      calculate_gematria_def Let_def backend_normalize_filter)

theorem calculate_rejects_or_answers_witness:
  "backend_normalize [0x61, 0x62] = []
   \<and> post_gematria_calculate [0x61, 0x62] ([] :: nat gematria_words) =
       (Inl (ValidationError ''Word must contain at least one Hebrew character''), [])
   \<and> backend_normalize [0x5D7, 0x5B7, 0x5D9] \<noteq> []
   \<and> post_gematria_calculate [0x5D7, 0x5B7, 0x5D9] ([] :: nat gematria_words) =
       (Inr \<lparr>r_word = [0x5D7, 0x5B7, 0x5D9], r_normalized = [0x5D7, 0x5D9], r_gematria = 18\<rparr>,
        [])"
  using calculate_rejects_or_answers[of "[0x61, 0x62]" "[] :: nat gematria_words"]
    calculate_rejects_or_answers[of "[0x5D7, 0x5B7, 0x5D9]" "[] :: nat gematria_words"]
  by (simp add: new_WordRequest_def validate_hebrew_def backend_normalize_filter get_gematria_def
      dict_get_def GEMATRIA_MAP_def GEMATRIA_MAP_items_def)

end
